theory Spec2Isabelle
  imports Main "HOL-Library.Word" "HOL-Library.AList"
begin

unbundle bit_operations_syntax

section \<open>Bytes, errors and the big-endian codec\<close>

type_synonym byte = "8 word"

text \<open>
  A Go byte slice is a \<open>byte list\<close>; the nil slice and the empty slice are both \<open>[]\<close>
  (they have the same length and the same elements), except for \<open>net.IP\<close> below, which
  the code compares with nil. Every error value and every panic of the modelled
  functions is a constructor of \<open>error\<close>.
\<close>

datatype hex_error = ErrLength | InvalidByteError char

datatype error =
    ErrUnexpectedEOF
  | IndexOutOfRange
  | InvalidSignatureType
  | DecodeError hex_error
  | InvalidKeySize nat
  | KeyError string
  | NothingEvictable

text \<open>
  \<open>binary.BigEndian.PutUint64(b, v)\<close> checks \<open>b[7]\<close> first (a panic on a shorter slice) and
  then stores \<open>byte(v >> 56)\<close>, ..., \<open>byte(v)\<close> into \<open>b[0]\<close>, ..., \<open>b[7]\<close>.
\<close>

definition PutUint64 :: "byte list \<Rightarrow> 64 word \<Rightarrow> error + byte list" where
  "PutUint64 b v =
     (if length b < 8 then Inl IndexOutOfRange
      else Inr (b[0 := ucast (drop_bit 56 v), 1 := ucast (drop_bit 48 v),
                  2 := ucast (drop_bit 40 v), 3 := ucast (drop_bit 32 v),
                  4 := ucast (drop_bit 24 v), 5 := ucast (drop_bit 16 v),
                  6 := ucast (drop_bit 8 v), 7 := ucast v]))"

text \<open>
  \<open>binary.BigEndian.Uint64(b)\<close>: the same bounds check, then
  \<open>uint64(b[7]) | uint64(b[6])<<8 | ... | uint64(b[0])<<56\<close>.
\<close>

definition Uint64 :: "byte list \<Rightarrow> error + 64 word" where
  "Uint64 b =
     (if length b < 8 then Inl IndexOutOfRange
      else Inr (ucast (b ! 7) OR push_bit 8 (ucast (b ! 6)) OR push_bit 16 (ucast (b ! 5))
                OR push_bit 24 (ucast (b ! 4)) OR push_bit 32 (ucast (b ! 3))
                OR push_bit 40 (ucast (b ! 2)) OR push_bit 48 (ucast (b ! 1))
                OR push_bit 56 (ucast (b ! 0))))"

definition PutUint16 :: "byte list \<Rightarrow> 16 word \<Rightarrow> error + byte list" where
  "PutUint16 b v =
     (if length b < 2 then Inl IndexOutOfRange
      else Inr (b[0 := ucast (drop_bit 8 v), 1 := ucast v]))"

definition Uint16 :: "byte list \<Rightarrow> error + 16 word" where
  "Uint16 b =
     (if length b < 2 then Inl IndexOutOfRange
      else Inr (ucast (b ! 1) OR push_bit 8 (ucast (b ! 0))))"

section \<open>Wire message framing (package message)\<close>

record Message =
  Nonce :: "64 word"
  Data :: "byte list"

text \<open>
  \<open>Message.Marshal(dst)\<close>: \<open>dst = append(dst, make([]byte, 8)...)\<close>, then
  \<open>PutUint64(dst[:8], m.Nonce)\<close>, then \<open>dst = append(dst, m.Data...)\<close>. The slice
  \<open>dst[:8]\<close> shares its storage with \<open>dst\<close>, so the eight bytes written are the first eight
  bytes of the extended buffer.
\<close>

definition Message_Marshal :: "Message \<Rightarrow> byte list \<Rightarrow> error + byte list" where
  "Message_Marshal m dst =
     (let dst1 = dst @ replicate 8 0 in
      case PutUint64 (take 8 dst1) (Nonce m) of
        Inl e \<Rightarrow> Inl e
      | Inr front \<Rightarrow> Inr ((front @ drop 8 dst1) @ Data m))"

text \<open>
  \<open>message.Unmarshal(data)\<close>: the length check, the nonce from \<open>data[:8]\<close>, then
  \<open>data = data[:8]\<close> and that slice is returned as the payload.
\<close>

definition Unmarshal :: "byte list \<Rightarrow> error + Message" where
  "Unmarshal data =
     (if length data < 8 then Inl ErrUnexpectedEOF
      else case Uint64 (take 8 data) of
             Inl e \<Rightarrow> Inl e
           | Inr nonce \<Rightarrow> Inr \<lparr>Nonce = nonce, Data = take 8 data\<rparr>)"

section \<open>IP addresses (package net, as far as the repository uses it)\<close>

text \<open>
  A \<open>net.IP\<close> is a byte slice that the code compares with nil, so the nil slice
  (\<open>None\<close>) is kept apart from a slice with bytes. Its length and its elements are those
  of \<open>ip_bytes\<close>.
\<close>

type_synonym IP = "byte list option"

definition ip_bytes :: "IP \<Rightarrow> byte list" where
  "ip_bytes ip = (case ip of None \<Rightarrow> [] | Some b \<Rightarrow> b)"

definition IPv4len :: nat where "IPv4len = 4"
definition IPv6len :: nat where "IPv6len = 16"

definition v4InV6Prefix :: "byte list" where
  "v4InV6Prefix = [0, 0, 0, 0, 0, 0, 0, 0, 0, 0, 0xff, 0xff]"

text \<open>\<open>net.IPv4(a, b, c, d)\<close>: sixteen bytes, the prefix \<open>v4InV6Prefix\<close> and the four given.\<close>

definition IPv4 :: "byte \<Rightarrow> byte \<Rightarrow> byte \<Rightarrow> byte \<Rightarrow> IP" where
  "IPv4 a b c d = Some (v4InV6Prefix @ [a, b, c, d])"

text \<open>
  \<open>ip.To16()\<close>: a four-byte address becomes its IPv4-mapped form, a sixteen-byte
  address is returned as it is, any other length gives nil.
\<close>

definition To16 :: "IP \<Rightarrow> IP" where
  "To16 ip =
     (if length (ip_bytes ip) = IPv4len
      then IPv4 (ip_bytes ip ! 0) (ip_bytes ip ! 1) (ip_bytes ip ! 2) (ip_bytes ip ! 3)
      else if length (ip_bytes ip) = IPv6len then ip
      else None)"

text \<open>
  \<open>ip.To4()\<close>: a four-byte address as it is; a sixteen-byte address whose first ten bytes
  are zero and whose next two are \<open>0xff\<close> gives its last four bytes; otherwise nil.
\<close>

definition To4 :: "IP \<Rightarrow> IP" where
  "To4 ip =
     (if length (ip_bytes ip) = IPv4len then ip
      else if length (ip_bytes ip) = IPv6len \<and> list_all (\<lambda>b. b = 0) (take 10 (ip_bytes ip))
              \<and> ip_bytes ip ! 10 = 0xff \<and> ip_bytes ip ! 11 = 0xff
           then Some (drop 12 (ip_bytes ip))
      else None)"

text \<open>
  \<open>ip.Equal(x)\<close>: equal bytes at equal length; a four-byte address equals the
  sixteen-byte one that is its IPv4-mapped form, and conversely.
\<close>

definition IP_Equal :: "IP \<Rightarrow> IP \<Rightarrow> bool" where
  "IP_Equal ip x =
     (if length (ip_bytes ip) = length (ip_bytes x) then ip_bytes ip = ip_bytes x
      else if length (ip_bytes ip) = IPv4len \<and> length (ip_bytes x) = IPv6len
           then take 12 (ip_bytes x) = v4InV6Prefix \<and> ip_bytes ip = drop 12 (ip_bytes x)
      else if length (ip_bytes ip) = IPv6len \<and> length (ip_bytes x) = IPv4len
           then take 12 (ip_bytes ip) = v4InV6Prefix \<and> drop 12 (ip_bytes ip) = ip_bytes x
      else False)"

definition IPv4zero :: IP where "IPv4zero = IPv4 0 0 0 0"
definition IPv6unspecified :: IP where "IPv6unspecified = Some (replicate 16 0)"
definition IPv6loopback :: IP where "IPv6loopback = Some (replicate 15 0 @ [1])"

definition IsUnspecified :: "IP \<Rightarrow> bool" where
  "IsUnspecified ip = (IP_Equal ip IPv4zero \<or> IP_Equal ip IPv6unspecified)"

text \<open>\<open>ip.IsLoopback()\<close>: when \<open>To4\<close> is not nil its first byte is 127, else the address
  equals \<open>IPv6loopback\<close>.\<close>

definition IsLoopback :: "IP \<Rightarrow> bool" where
  "IsLoopback ip =
     (case To4 ip of
        Some ip4 \<Rightarrow> ip4 ! 0 = 127
      | None \<Rightarrow> IP_Equal ip IPv6loopback)"

section \<open>Address normalisation (package utils)\<close>

text \<open>\<open>ResolveIP\<close>: nil for a nil, loopback or unspecified address, else the address.\<close>

definition ResolveIP :: "IP \<Rightarrow> IP" where
  "ResolveIP ip = (if ip = None \<or> IsLoopback ip \<or> IsUnspecified ip then None else ip)"

text \<open>
  \<open>NormalizeIP\<close>: the empty string when \<open>ResolveIP\<close> gives nil, else the textual form of
  the address. The textual form is \<open>net.IP.String\<close>, a parameter here.
\<close>

definition NormalizeIP :: "(IP \<Rightarrow> string) \<Rightarrow> IP \<Rightarrow> string" where
  "NormalizeIP ip_String ip =
     (let resolvedIP = ResolveIP ip in
      if resolvedIP = None then [] else ip_String resolvedIP)"

section \<open>Peer identities (package id)\<close>

text \<open>
  The methods \<open>Size\<close>, \<open>Bytes\<close> and \<open>UnmarshalPublicKeyFromByte\<close> that package id calls
  on a \<open>keys.PublicKey\<close> are parameters: a record of the three methods, each taking its
  receiver first.
\<close>

record 'k PublicKeyMethods =
  Size :: "'k \<Rightarrow> nat"
  Bytes :: "'k \<Rightarrow> byte list"
  UnmarshalPublicKeyFromByte :: "'k \<Rightarrow> byte list \<Rightarrow> error + 'k"

record 'k ID =
  ID :: 'k
  Host :: IP
  Port :: "16 word"

definition NewID :: "'k \<Rightarrow> IP \<Rightarrow> 16 word \<Rightarrow> 'k ID" where
  "NewID k host port = \<lparr>ID = k, Host = host, Port = port\<rparr>"

text \<open>\<open>strconv.FormatUint(n, 10)\<close>: the decimal digits of \<open>n\<close>, most significant first.\<close>

fun FormatUint :: "nat \<Rightarrow> string" where
  "FormatUint n =
     (if n < 10 then [char_of (48 + n)]
      else FormatUint (n div 10) @ [char_of (48 + n mod 10)])"

declare FormatUint.simps [simp del]

text \<open>
  \<open>net.JoinHostPort(host, port)\<close>: \<open>[host]:port\<close> when the host contains a colon,
  \<open>host:port\<close> otherwise.
\<close>

definition JoinHostPort :: "string \<Rightarrow> string \<Rightarrow> string" where
  "JoinHostPort host port =
     (if CHR '':'' \<in> set host
      then ''['' @ host @ '']:'' @ port
      else host @ '':'' @ port)"

definition Address :: "(IP \<Rightarrow> string) \<Rightarrow> 'k ID \<Rightarrow> string" where
  "Address ip_String i =
     JoinHostPort (NormalizeIP ip_String (Host i)) (FormatUint (unat (Port i)))"

text \<open>\<open>ID.Size()\<close>: \<open>i.ID.Size() + net.IPv4len + 2\<close>.\<close>

definition ID_Size :: "'k PublicKeyMethods \<Rightarrow> 'k ID \<Rightarrow> nat" where
  "ID_Size pk i = Size pk (ID i) + IPv4len + 2"

text \<open>
  \<open>ID.Marshal()\<close>: the key bytes, then \<open>Host.To16()\<close>, then the two port bytes written
  by \<open>PutUint16\<close> into a fresh two-byte slice.
\<close>

definition ID_Marshal :: "'k PublicKeyMethods \<Rightarrow> 'k ID \<Rightarrow> error + byte list" where
  "ID_Marshal pk e =
     (let pubKeyBytes = Bytes pk (ID e);
          hostBytes = To16 (Host e)
      in case PutUint16 (replicate 2 0) (Port e) of
           Inl err \<Rightarrow> Inl err
         | Inr portBytes \<Rightarrow> Inr ((pubKeyBytes @ ip_bytes hostBytes) @ portBytes))"

text \<open>
  \<open>UnmarshalID(buf, pubkey)\<close>: the length check against
  \<open>pubkey.Size() + net.IPv6len + 2\<close>, the key from the first \<open>Size\<close> bytes, the host from
  the next sixteen, the port from the two bytes after them.
\<close>

definition UnmarshalID :: "'k PublicKeyMethods \<Rightarrow> byte list \<Rightarrow> 'k \<Rightarrow> error + 'k ID" where
  "UnmarshalID pk buf pubkey =
     (let expectedSize = Size pk pubkey + IPv6len + 2 in
      if length buf < expectedSize then Inl ErrUnexpectedEOF
      else case UnmarshalPublicKeyFromByte pk pubkey (take (Size pk pubkey) buf) of
             Inl err \<Rightarrow> Inl err
           | Inr pubKey \<Rightarrow>
               (let hostBytes = drop (Size pk pubkey) (take (Size pk pubkey + IPv6len) buf);
                    host = Some hostBytes
                in case Uint16 (drop (Size pk pubkey + IPv6len) buf) of
                     Inl err \<Rightarrow> Inl err
                   | Inr port \<Rightarrow> Inr \<lparr>ID = pubKey, Host = host, Port = port\<rparr>))"

section \<open>Hexadecimal decoding (package encoding/hex, as the repository uses it)\<close>

text \<open>
  The table \<open>reverseHexTable\<close>: the value of a hexadecimal digit of either case, \<open>0xff\<close>
  for every other byte.
\<close>

definition reverseHexTable :: "char \<Rightarrow> byte" where
  "reverseHexTable c =
     (let n = (of_char c :: nat) in
      if 48 \<le> n \<and> n \<le> 57 then of_nat (n - 48)
      else if 97 \<le> n \<and> n \<le> 102 then of_nat (n - 97 + 10)
      else if 65 \<le> n \<and> n \<le> 70 then of_nat (n - 65 + 10)
      else 0xff)"

text \<open>
  \<open>hex.Decode\<close> walks the source two characters at a time and stops at the first
  character that is no digit; a single character left over is an invalid byte if it
  is no digit and a length error otherwise. The result is the bytes decoded before
  the error, and the error.
\<close>

fun hex_Decode :: "string \<Rightarrow> byte list \<times> hex_error option" where
  "hex_Decode (p # q # src) =
     (let a = reverseHexTable p; b = reverseHexTable q in
      if a > 0x0f then ([], Some (InvalidByteError p))
      else if b > 0x0f then ([], Some (InvalidByteError q))
      else (case hex_Decode src of (bs, err) \<Rightarrow> ((push_bit 4 a OR b) # bs, err)))"
| "hex_Decode [p] =
     (if reverseHexTable p > 0x0f then ([], Some (InvalidByteError p))
      else ([], Some ErrLength))"
| "hex_Decode [] = ([], None)"

definition DecodeString :: "string \<Rightarrow> byte list \<times> hex_error option" where
  "DecodeString s = hex_Decode s"

section \<open>Ed25519 keys and signatures (package keys)\<close>

definition PrivateKeySize :: nat where "PrivateKeySize = 64"
definition PublicKeySize :: nat where "PublicKeySize = 32"
definition SignatureSize :: nat where "SignatureSize = 64"

text \<open>
  The three functions of \<open>crypto/ed25519\<close> that the package calls are parameters:
  \<open>ed_Sign priv data\<close>, \<open>ed_Verify pub data sig\<close> and \<open>ed_Public priv\<close>.
\<close>

record ed25519 =
  ed_Sign :: "byte list \<Rightarrow> byte list \<Rightarrow> byte list"
  ed_Verify :: "byte list \<Rightarrow> byte list \<Rightarrow> byte list \<Rightarrow> bool"
  ed_Public :: "byte list \<Rightarrow> byte list"

text \<open>
  The interface \<open>Signature\<close> has one implementation in the package,
  \<open>Ed25519Signature\<close>; \<open>OtherSignature\<close> stands for a value of any other dynamic type.
  Keys and signatures are fixed-size byte arrays, modelled by their bytes.
\<close>

datatype Signature = Ed25519Signature "byte list" | OtherSignature string

type_synonym Ed25519PrivateKey = "byte list"
type_synonym Ed25519PublicKey = "byte list"

text \<open>Go's \<open>copy(dst, src)\<close>: the first \<open>min (len dst) (len src)\<close> elements are overwritten.\<close>

definition copy :: "'a list \<Rightarrow> 'a list \<Rightarrow> 'a list" where
  "copy dst src = take (length dst) src @ drop (length src) dst"

text \<open>
  \<open>Verify\<close>: the type assertion on the signature, then \<open>ed25519.Verify\<close>. The Go function
  returns a pair of the boolean and the error.
\<close>

definition Verify ::
    "ed25519 \<Rightarrow> Ed25519PublicKey \<Rightarrow> byte list \<Rightarrow> Signature \<Rightarrow> bool \<times> error option" where
  "Verify lib e data signature =
     (case signature of
        Ed25519Signature ed25519Sig \<Rightarrow> (ed_Verify lib e data ed25519Sig, None)
      | OtherSignature _ \<Rightarrow> (False, Some InvalidSignatureType))"

text \<open>\<open>Public\<close>: the library's public key copied into a fresh 32-byte array.\<close>

definition Public :: "ed25519 \<Rightarrow> Ed25519PrivateKey \<Rightarrow> Ed25519PublicKey \<times> error option" where
  "Public lib e =
     (let pub = ed_Public lib e in (copy (replicate PublicKeySize 0) pub, None))"

text \<open>
  \<open>ed25519UnmarshalSignature\<close>: the index expression \<open>data[SignatureSize-1]\<close> panics on a
  shorter slice; the result is the array value read at the start of the slice's storage,
  its first 64 bytes.
\<close>

definition ed25519UnmarshalSignature :: "byte list \<Rightarrow> error + Signature" where
  "ed25519UnmarshalSignature data =
     (if length data \<le> SignatureSize - 1 then Inl IndexOutOfRange
      else Inr (Ed25519Signature (take SignatureSize data)))"

definition Sign :: "ed25519 \<Rightarrow> Ed25519PrivateKey \<Rightarrow> byte list \<Rightarrow> error + Signature" where
  "Sign lib e data =
     (let signatureBytes = ed_Sign lib e data in ed25519UnmarshalSignature signatureBytes)"

text \<open>
  \<open>LoadKeysFromHex\<close>: a decoding error first, then the size check, then the copy into
  a fresh 64-byte array.
\<close>

definition LoadKeysFromHex :: "string \<Rightarrow> error + Ed25519PrivateKey" where
  "LoadKeysFromHex secretHex =
     (case DecodeString secretHex of
        (secret, Some err) \<Rightarrow> Inl (DecodeError err)
      | (secret, None) \<Rightarrow>
          if length secret \<noteq> PrivateKeySize then Inl (InvalidKeySize (length secret))
          else Inr (copy (replicate PrivateKeySize 0) secret))"

section \<open>The connection registry (package client)\<close>

text \<open>
  The struct \<open>ClientMap\<close>: the capacity, the recency list \<open>order\<close> (a \<open>container/list\<close>,
  front first) and the map \<open>entries\<close> from an address to its client. The map is an
  association list with distinct keys; the list element an entry points to is the
  position of its address in \<open>order\<close>.
\<close>

record 'c ClientMap =
  cap :: nat
  order :: "string list"
  entries :: "(string \<times> 'c) list"


text \<open>
  Modelled from the spec: the registry operation \<open>len\<close> is not in the source (only the
  struct and its constructor are). The spec: "current occupancy", the number of entries.
\<close>

definition len :: "'c ClientMap \<Rightarrow> nat" where
  "len m = length (entries m)"









text \<open>
  Modelled from the spec: the methods \<open>Size\<close>, \<open>Bytes\<close> and \<open>UnmarshalPublicKeyFromByte\<close>
  of \<open>Ed25519PublicKey\<close> are not in the source. The spec gives 32-byte keys whose
  serialised form is their raw bytes.
\<close>

definition Ed25519PublicKeyMethods :: "Ed25519PublicKey PublicKeyMethods" where
  "Ed25519PublicKeyMethods =
     \<lparr>Size = (\<lambda>_. PublicKeySize),
      Bytes = (\<lambda>k. k),
      UnmarshalPublicKeyFromByte =
        (\<lambda>_ b. if length b < PublicKeySize then Inl (KeyError ''short public key'')
                else Inr (take PublicKeySize b))\<rparr>"

text \<open>
  A stand-in for the library, to give the parameter a value where \<open>Verify\<close> is
  evaluated at concrete inputs. It is not Ed25519: the public key is the second half of
  the private key, and a signature is the first 64 bytes of the public key followed by
  the data and zero padding.
\<close>

definition stub_ed25519 :: ed25519 where
  "stub_ed25519 =
     \<lparr>ed_Sign = (\<lambda>priv data. take 64 (drop 32 priv @ data @ replicate 64 0)),
      ed_Verify = (\<lambda>pub data sig. sig = take 64 (pub @ data @ replicate 64 0)),
      ed_Public = (\<lambda>priv. drop 32 priv)\<rparr>"

text \<open>
  What the spec calls valid hex, in its own terms: a string of even length all of
  whose characters are hexadecimal digits of either case.
\<close>

definition hex_digit :: "char \<Rightarrow> bool" where
  "hex_digit c = (c \<in> set ''0123456789abcdefABCDEF'')"

definition valid_hex :: "string \<Rightarrow> bool" where
  "valid_hex s = (even (length s) \<and> list_all hex_digit s)"


section \<open>Properties of the wire message framing\<close>

text \<open>
  Claim C1. Decoding a buffer of at least eight bytes returns the bytes after the first
  eight as the payload. On the nine-byte buffer below the payload would be the single
  byte \<open>0xAA\<close>; \<open>Unmarshal\<close> returns the first eight bytes, the bytes of the nonce, as
  the payload.
\<close>

theorem Unmarshal_payload_is_first_eight_bytes:
  "Unmarshal [0, 0, 0, 0, 0, 0, 0, 1, 0xAA] =
     Inr \<lparr>Nonce = 1, Data = [0, 0, 0, 0, 0, 0, 0, 1]\<rparr>"
  by (simp add: Unmarshal_def Uint64_def)

text \<open>
  Claim C2. Encoding appends the eight nonce bytes and the payload to the buffer and
  leaves the bytes already there unchanged. On the one-byte buffer \<open>[0xFF]\<close> the result
  would be \<open>[0xFF, 0, 0, 0, 0, 0, 0, 0, 1, 0xBB]\<close>; \<open>Marshal\<close> writes the nonce over
  the first eight bytes of the extended buffer, so the byte \<open>0xFF\<close> is lost and the last
  of the eight appended bytes stays zero.
\<close>

theorem Message_Marshal_overwrites_front:
  "Message_Marshal \<lparr>Nonce = 1, Data = [0xBB]\<rparr> [0xFF] =
     Inr [0, 0, 0, 0, 0, 0, 0, 1, 0, 0xBB]"
  by (simp add: Message_Marshal_def PutUint64_def eval_nat_numeral)

section \<open>Properties of peer identities\<close>

text \<open>
  Claim C4. The size of an identity is the key size plus 16 plus 2. \<open>ID.Size\<close> adds
  \<open>net.IPv4len\<close>, which is 4, so it returns the key size plus 6, while \<open>Marshal\<close> writes
  and \<open>UnmarshalID\<close> expects sixteen address bytes.
\<close>

theorem ID_Size_adds_six: "ID_Size pk i = Size pk (ID i) + 6"
  by (simp add: ID_Size_def IPv4len_def)

lemma UnmarshalID_short:
  "length buf < Size pk pubkey + 18 \<Longrightarrow> UnmarshalID pk buf pubkey = Inl ErrUnexpectedEOF"
  by (simp add: UnmarshalID_def IPv6len_def)

lemma Uint16_drop:
  "n + 2 \<le> length buf \<Longrightarrow>
   Uint16 (drop n buf) = Inr (ucast (buf ! (n + 1)) OR push_bit 8 (ucast (buf ! n)))"
  by (simp add: Uint16_def)

lemma UnmarshalID_long:
  assumes "Size pk pubkey + 18 \<le> length buf"
  shows "UnmarshalID pk buf pubkey =
     (case UnmarshalPublicKeyFromByte pk pubkey (take (Size pk pubkey) buf) of
        Inl err \<Rightarrow> Inl err
      | Inr k \<Rightarrow> Inr \<lparr>ID = k, Host = Some (take 16 (drop (Size pk pubkey) buf)),
           Port = ucast (buf ! (Size pk pubkey + 17)) OR
                  push_bit 8 (ucast (buf ! (Size pk pubkey + 16)))\<rparr>)"
proof -
  have p: "Uint16 (drop (Size pk pubkey + 16) buf) =
      Inr (ucast (buf ! (Size pk pubkey + 17)) OR push_bit 8 (ucast (buf ! (Size pk pubkey + 16))))"
    using Uint16_drop [of "Size pk pubkey + 16" buf] assms by (simp add: ac_simps)
  have h: "drop (Size pk pubkey) (take (Size pk pubkey + 16) buf) = take 16 (drop (Size pk pubkey) buf)"
    by (simp add: drop_take)
  from assms have n: "\<not> length buf < Size pk pubkey + 16 + 2" by simp
  show ?thesis
    unfolding UnmarshalID_def Let_def IPv6len_def
    by (simp only: n if_False p h sum.case cong: sum.case_cong)
qed


lemma Unmarshal_EOF_iff: "Unmarshal data = Inl ErrUnexpectedEOF \<longleftrightarrow> length data < 8"
  by (simp add: Unmarshal_def Uint64_def)

lemma Unmarshal_long: "8 \<le> length data \<Longrightarrow> \<exists>m. Unmarshal data = Inr m"
  by (simp add: Unmarshal_def Uint64_def)

text \<open>
  Claim C8. \<open>UnmarshalID\<close> fails with the truncated-input error exactly when the buffer
  is shorter than the key size plus 18, and \<open>Unmarshal\<close> exactly when the buffer is
  shorter than 8; on a buffer that is long enough \<open>Unmarshal\<close> succeeds and
  \<open>UnmarshalID\<close> fails only with an error of the key parser. The key parser is a
  parameter, assumed not to report truncation on a slice of exactly the key size.
\<close>

theorem truncated_input_exactly_when_short:
  assumes "\<forall>b. length b = Size pk pubkey \<longrightarrow>
             UnmarshalPublicKeyFromByte pk pubkey b \<noteq> Inl ErrUnexpectedEOF"
  shows "(UnmarshalID pk buf pubkey = Inl ErrUnexpectedEOF \<longleftrightarrow> length buf < Size pk pubkey + 18)
       \<and> (Size pk pubkey + 18 \<le> length buf \<longrightarrow>
            UnmarshalID pk buf pubkey =
              (case UnmarshalPublicKeyFromByte pk pubkey (take (Size pk pubkey) buf) of
                 Inl err \<Rightarrow> Inl err
               | Inr k \<Rightarrow> Inr \<lparr>ID = k, Host = Some (take 16 (drop (Size pk pubkey) buf)),
                    Port = ucast (buf ! (Size pk pubkey + 17)) OR
                           push_bit 8 (ucast (buf ! (Size pk pubkey + 16)))\<rparr>))
       \<and> (Unmarshal data = Inl ErrUnexpectedEOF \<longleftrightarrow> length data < 8)
       \<and> (8 \<le> length data \<longrightarrow> (\<exists>m. Unmarshal data = Inr m))"
proof -
  have a: "UnmarshalID pk buf pubkey = Inl ErrUnexpectedEOF \<longleftrightarrow> length buf < Size pk pubkey + 18"
  proof (cases "length buf < Size pk pubkey + 18")
    case True
    then show ?thesis by (simp add: UnmarshalID_short)
  next
    case False
    then have len: "length (take (Size pk pubkey) buf) = Size pk pubkey" by simp
    from assms len have "UnmarshalPublicKeyFromByte pk pubkey (take (Size pk pubkey) buf) \<noteq> Inl ErrUnexpectedEOF"
      by blast
    with False show ?thesis
      by (auto simp add: UnmarshalID_long split: sum.splits)
  qed
  show ?thesis
    using a UnmarshalID_long [of pk pubkey buf] Unmarshal_EOF_iff [of data] Unmarshal_long [of data]
    by blast
qed

theorem truncated_input_exactly_when_short_witness:
  "UnmarshalID Ed25519PublicKeyMethods (replicate 49 0) [] = Inl ErrUnexpectedEOF
   \<and> UnmarshalID Ed25519PublicKeyMethods (replicate 50 0) [] \<noteq> Inl ErrUnexpectedEOF
   \<and> Unmarshal (replicate 7 0) = Inl ErrUnexpectedEOF
   \<and> Unmarshal (replicate 8 0) \<noteq> Inl ErrUnexpectedEOF"
proof -
  have h: "\<forall>b. length b = Size Ed25519PublicKeyMethods [] \<longrightarrow>
         UnmarshalPublicKeyFromByte Ed25519PublicKeyMethods [] b \<noteq> Inl ErrUnexpectedEOF"
    by (simp add: Ed25519PublicKeyMethods_def)
  have s: "Size Ed25519PublicKeyMethods [] = 32"
    by (simp add: Ed25519PublicKeyMethods_def PublicKeySize_def)
  have t1: "UnmarshalID Ed25519PublicKeyMethods (replicate 49 0) [] = Inl ErrUnexpectedEOF"
    using truncated_input_exactly_when_short [OF h, of "replicate 49 0" "replicate 7 0", THEN conjunct1]
    by (simp add: s)
  have t2: "UnmarshalID Ed25519PublicKeyMethods (replicate 50 0) [] \<noteq> Inl ErrUnexpectedEOF"
    using truncated_input_exactly_when_short [OF h, of "replicate 50 0" "replicate 8 0", THEN conjunct1]
    by (simp add: s)
  have t3: "Unmarshal (replicate 7 0) = Inl ErrUnexpectedEOF"
    using truncated_input_exactly_when_short [OF h, of "replicate 49 0" "replicate 7 0",
        THEN conjunct2, THEN conjunct2, THEN conjunct1]
    by simp
  have t4: "Unmarshal (replicate 8 0) \<noteq> Inl ErrUnexpectedEOF"
    using truncated_input_exactly_when_short [OF h, of "replicate 50 0" "replicate 8 0",
        THEN conjunct2, THEN conjunct2, THEN conjunct1]
    by simp
  show ?thesis using t1 t2 t3 t4 by blast
qed

section \<open>Properties of keys and signatures\<close>

text \<open>
  Claim C7. For a signature of type \<open>Ed25519Signature\<close> the result of \<open>Verify\<close> is the
  library's verdict with no error, so false with no error when the signature does not
  match; \<open>Verify\<close> returns an error exactly when the signature has another type, and the
  error is then the invalid-signature-type error.
\<close>

theorem Verify_error_only_for_foreign_signature:
  "(\<not> ed_Verify lib e data s \<longrightarrow> Verify lib e data (Ed25519Signature s) = (False, None))
   \<and> (ed_Verify lib e data s \<longrightarrow> Verify lib e data (Ed25519Signature s) = (True, None))
   \<and> (snd (Verify lib e data signature) \<noteq> None \<longleftrightarrow> (\<forall>s'. signature \<noteq> Ed25519Signature s'))
   \<and> (snd (Verify lib e data signature) \<noteq> None \<longrightarrow>
         Verify lib e data signature = (False, Some InvalidSignatureType))"
  by (cases signature) (simp_all add: Verify_def)

theorem Verify_error_only_for_foreign_signature_witness:
  "Verify stub_ed25519 (replicate 32 1) [5, 7] (Ed25519Signature (replicate 32 1 @ [5, 6] @ replicate 30 0))
     = (False, None)
   \<and> Verify stub_ed25519 (replicate 32 1) [5, 6] (Ed25519Signature (replicate 32 1 @ [5, 6] @ replicate 30 0))
     = (True, None)
   \<and> Verify stub_ed25519 (replicate 32 1) [5, 6] (OtherSignature ''rsa'')
     = (False, Some InvalidSignatureType)"
proof -
  have n: "\<not> ed_Verify stub_ed25519 (replicate 32 1) [5, 7] (replicate 32 1 @ [5, 6] @ replicate 30 0)"
    by (simp add: stub_ed25519_def eval_nat_numeral)
  have y: "ed_Verify stub_ed25519 (replicate 32 1) [5, 6] (replicate 32 1 @ [5, 6] @ replicate 30 0)"
    by (simp add: stub_ed25519_def eval_nat_numeral)
  have o: "snd (Verify stub_ed25519 (replicate 32 1) [5, 6] (OtherSignature ''rsa'')) \<noteq> None"
    using Verify_error_only_for_foreign_signature
      [of stub_ed25519 "replicate 32 1" "[5, 6]" "[]" "OtherSignature ''rsa''",
        THEN conjunct2, THEN conjunct2, THEN conjunct1]
    by simp
  show ?thesis
    using n y o
      Verify_error_only_for_foreign_signature
        [of stub_ed25519 "replicate 32 1" "[5, 7]" "replicate 32 1 @ [5, 6] @ replicate 30 0"
          "OtherSignature ''rsa''", THEN conjunct1]
      Verify_error_only_for_foreign_signature
        [of stub_ed25519 "replicate 32 1" "[5, 6]" "replicate 32 1 @ [5, 6] @ replicate 30 0"
          "OtherSignature ''rsa''"]
    by blast
qed

section \<open>Properties of the canonical address\<close>

text \<open>
  Claim C10. \<open>Address\<close> is \<open>JoinHostPort\<close> of the normalised host and the decimal port;
  for a nil, loopback or unspecified host the normalised host is the empty string, so
  the address is a colon followed by the port; for any other host it is the textual
  form of the address.
\<close>

theorem Address_normalises_host:
  "Address ip_String i =
     JoinHostPort (NormalizeIP ip_String (Host i)) (FormatUint (unat (Port i)))
   \<and> (Host i = None \<or> IsLoopback (Host i) \<or> IsUnspecified (Host i) \<longrightarrow>
        NormalizeIP ip_String (Host i) = []
        \<and> Address ip_String i = CHR '':'' # FormatUint (unat (Port i)))
   \<and> (\<not> (Host i = None \<or> IsLoopback (Host i) \<or> IsUnspecified (Host i)) \<longrightarrow>
        NormalizeIP ip_String (Host i) = ip_String (Host i))"
  by (auto simp add: Address_def NormalizeIP_def ResolveIP_def JoinHostPort_def Let_def)

lemma IsLoopback_127: "IsLoopback (Some [127, 0, 0, 1])"
  by (simp add: IsLoopback_def To4_def IPv4len_def ip_bytes_def)

lemma routable_10_0_0_7:
  "\<not> (Some [10, 0, 0, 7] = (None :: IP) \<or> IsLoopback (Some [10, 0, 0, 7])
      \<or> IsUnspecified (Some [10, 0, 0, 7]))"
  by code_simp

lemma FormatUint_nat_8080: "FormatUint 8080 = ''8080''"
  by (simp add: FormatUint.simps [of 8080] FormatUint.simps [of 808] FormatUint.simps [of 80]
      FormatUint.simps [of 8] char_of_def bit_Suc_0_iff)

lemma FormatUint_8080: "FormatUint (unat (8080 :: 16 word)) = ''8080''"
  by (simp add: FormatUint_nat_8080)

theorem Address_normalises_host_witness:
  "NormalizeIP (\<lambda>ip. ''10.0.0.7'') (Some [127, 0, 0, 1]) = []
   \<and> Address (\<lambda>ip. ''10.0.0.7'') \<lparr>ID = (), Host = Some [127, 0, 0, 1], Port = 8080\<rparr> = '':8080''
   \<and> Address (\<lambda>ip. ''10.0.0.7'') \<lparr>ID = (), Host = Some [10, 0, 0, 7], Port = 8080\<rparr> = ''10.0.0.7:8080''"
proof -
  have a: "NormalizeIP (\<lambda>ip. ''10.0.0.7'') (Some [127, 0, 0, 1]) = []
      \<and> Address (\<lambda>ip. ''10.0.0.7'') \<lparr>ID = (), Host = Some [127, 0, 0, 1], Port = 8080\<rparr> = '':8080''"
    using Address_normalises_host
      [of "\<lambda>ip. ''10.0.0.7''" "\<lparr>ID = (), Host = Some [127, 0, 0, 1], Port = 8080\<rparr>",
        THEN conjunct2, THEN conjunct1]
      IsLoopback_127 FormatUint_8080
    by simp
  have n: "NormalizeIP (\<lambda>ip. ''10.0.0.7'') (Some [10, 0, 0, 7]) = ''10.0.0.7''"
    using Address_normalises_host
      [of "\<lambda>ip. ''10.0.0.7''" "\<lparr>ID = (), Host = Some [10, 0, 0, 7], Port = 8080\<rparr>",
        THEN conjunct2, THEN conjunct2]
      routable_10_0_0_7
    by simp
  have b: "Address (\<lambda>ip. ''10.0.0.7'') \<lparr>ID = (), Host = Some [10, 0, 0, 7], Port = 8080\<rparr> = ''10.0.0.7:8080''"
    using Address_normalises_host
      [of "\<lambda>ip. ''10.0.0.7''" "\<lparr>ID = (), Host = Some [10, 0, 0, 7], Port = 8080\<rparr>",
        THEN conjunct1]
      n FormatUint_8080
    by (simp add: JoinHostPort_def)
  show ?thesis using a b by blast
qed

section \<open>Properties of loading a private key\<close>

lemma hex_digit_code_points:
  "hex_digit c \<longleftrightarrow> (of_char c :: nat) \<in>
     {48, 49, 50, 51, 52, 53, 54, 55, 56, 57, 97, 98, 99, 100, 101, 102, 65, 66, 67, 68, 69, 70}"
proof -
  have "hex_digit c \<longleftrightarrow> (of_char c :: nat) \<in> of_char ` set ''0123456789abcdefABCDEF''"
    unfolding hex_digit_def by (simp only: inj_image_mem_iff [OF inj_of_char])
  also have "(of_char ` set ''0123456789abcdefABCDEF'' :: nat set) =
     {48, 49, 50, 51, 52, 53, 54, 55, 56, 57, 97, 98, 99, 100, 101, 102, 65, 66, 67, 68, 69, 70}"
    by (simp only: list.set image_insert image_empty of_char_Char) simp
  finally show ?thesis .
qed


lemma digit_range: "48 \<le> n \<Longrightarrow> n \<le> 57 \<Longrightarrow> (n::nat) \<in> {48, 49, 50, 51, 52, 53, 54, 55, 56, 57}"
proof -
  assume "48 \<le> n" "n \<le> 57"
  then have "n \<in> {48..<58}" by simp
  then have "n \<in> set [48..<58]" by (simp only: set_upt)
  then show ?thesis by (simp only: upt_rec_numeral) simp
qed

lemma lower_range: "97 \<le> n \<Longrightarrow> n \<le> 102 \<Longrightarrow> (n::nat) \<in> {97, 98, 99, 100, 101, 102}"
proof -
  assume "97 \<le> n" "n \<le> 102"
  then have "n \<in> {97..<103}" by simp
  then have "n \<in> set [97..<103]" by (simp only: set_upt)
  then show ?thesis by (simp only: upt_rec_numeral) simp
qed

lemma upper_range: "65 \<le> n \<Longrightarrow> n \<le> 70 \<Longrightarrow> (n::nat) \<in> {65, 66, 67, 68, 69, 70}"
proof -
  assume "65 \<le> n" "n \<le> 70"
  then have "n \<in> {65..<71}" by simp
  then have "n \<in> set [65..<71]" by (simp only: set_upt)
  then show ?thesis by (simp only: upt_rec_numeral) simp
qed

lemma code_points_ranges:
  "(n::nat) \<in> {48, 49, 50, 51, 52, 53, 54, 55, 56, 57, 97, 98, 99, 100, 101, 102,
                65, 66, 67, 68, 69, 70}
   \<longleftrightarrow> (48 \<le> n \<and> n \<le> 57) \<or> (97 \<le> n \<and> n \<le> 102) \<or> (65 \<le> n \<and> n \<le> 70)"
proof
  assume "n \<in> {48, 49, 50, 51, 52, 53, 54, 55, 56, 57, 97, 98, 99, 100, 101, 102,
                65, 66, 67, 68, 69, 70}"
  then show "(48 \<le> n \<and> n \<le> 57) \<or> (97 \<le> n \<and> n \<le> 102) \<or> (65 \<le> n \<and> n \<le> 70)"
    by (elim insertE emptyE) simp_all
next
  assume "(48 \<le> n \<and> n \<le> 57) \<or> (97 \<le> n \<and> n \<le> 102) \<or> (65 \<le> n \<and> n \<le> 70)"
  then consider "48 \<le> n \<and> n \<le> 57" | "97 \<le> n \<and> n \<le> 102" | "65 \<le> n \<and> n \<le> 70" by blast
  then show "n \<in> {48, 49, 50, 51, 52, 53, 54, 55, 56, 57, 97, 98, 99, 100, 101, 102,
                65, 66, 67, 68, 69, 70}"
  proof cases
    case 1
    then have "n \<in> {48, 49, 50, 51, 52, 53, 54, 55, 56, 57}" using digit_range [of n] by blast
    then show ?thesis by blast
  next
    case 2
    then have "n \<in> {97, 98, 99, 100, 101, 102}" using lower_range [of n] by blast
    then show ?thesis by blast
  next
    case 3
    then have "n \<in> {65, 66, 67, 68, 69, 70}" using upper_range [of n] by blast
    then show ?thesis by blast
  qed
qed

lemma small_byte: "n \<le> 15 \<Longrightarrow> \<not> (of_nat n :: byte) > 0x0f"
  by (simp add: word_less_nat_alt unat_of_nat)

lemma reverseHexTable_invalid_iff: "reverseHexTable c > 0x0f \<longleftrightarrow> \<not> hex_digit c"
proof -
  define n where "n = (of_char c :: nat)"
  have h: "hex_digit c \<longleftrightarrow> (48 \<le> n \<and> n \<le> 57) \<or> (97 \<le> n \<and> n \<le> 102) \<or> (65 \<le> n \<and> n \<le> 70)"
    by (simp only: hex_digit_code_points code_points_ranges n_def)
  have t: "reverseHexTable c =
      (if 48 \<le> n \<and> n \<le> 57 then of_nat (n - 48)
       else if 97 \<le> n \<and> n \<le> 102 then of_nat (n - 97 + 10)
       else if 65 \<le> n \<and> n \<le> 70 then of_nat (n - 65 + 10)
       else 0xff)"
    by (simp add: reverseHexTable_def n_def Let_def)
  show ?thesis
  proof (cases "48 \<le> n \<and> n \<le> 57")
    case True
    have v: "reverseHexTable c = of_nat (n - 48)" by (simp only: t if_P [OF True])
    have "\<not> reverseHexTable c > 0x0f" unfolding v by (rule small_byte) (use True in arith)
    moreover have "hex_digit c" using h True by blast
    ultimately show ?thesis by blast
  next
    case d: False
    show ?thesis
    proof (cases "97 \<le> n \<and> n \<le> 102")
      case True
      have v: "reverseHexTable c = of_nat (n - 97 + 10)" by (simp only: t if_not_P [OF d] if_P [OF True])
      have "\<not> reverseHexTable c > 0x0f" unfolding v by (rule small_byte) (use True in arith)
      moreover have "hex_digit c" using h True by blast
      ultimately show ?thesis by blast
    next
      case l: False
      show ?thesis
      proof (cases "65 \<le> n \<and> n \<le> 70")
        case True
        have v: "reverseHexTable c = of_nat (n - 65 + 10)"
          by (simp only: t if_not_P [OF d] if_not_P [OF l] if_P [OF True])
        have "\<not> reverseHexTable c > 0x0f" unfolding v by (rule small_byte) (use True in arith)
        moreover have "hex_digit c" using h True by blast
        ultimately show ?thesis by blast
      next
        case False
        have v: "reverseHexTable c = 0xff" by (simp only: t if_not_P [OF d] if_not_P [OF l] if_not_P [OF False])
        have "reverseHexTable c > 0x0f" unfolding v by simp
        moreover have "\<not> hex_digit c" using h d l False by blast
        ultimately show ?thesis by blast
      qed
    qed
  qed
qed

lemma hex_Decode_ok_iff: "snd (hex_Decode s) = None \<longleftrightarrow> valid_hex s"
  by (induction s rule: hex_Decode.induct)
     (auto simp: valid_hex_def reverseHexTable_invalid_iff Let_def split: prod.splits)

lemma hex_Decode_length:
  "snd (hex_Decode s) = None \<Longrightarrow> length (fst (hex_Decode s)) = length s div 2"
  by (induction s rule: hex_Decode.induct)
     (auto simp: Let_def split: prod.splits if_splits)


text \<open>
  Claim C9. \<open>LoadKeysFromHex\<close> fails with a decode error when the string is not valid
  hex; on valid hex the decoded length is half the string's length, and the function
  fails with the invalid-key-size error when that differs from 64 and otherwise returns
  the decoded bytes as the private key.
\<close>

theorem LoadKeysFromHex_cases:
  "(\<not> valid_hex s \<longrightarrow> (\<exists>e. snd (DecodeString s) = Some e \<and> LoadKeysFromHex s = Inl (DecodeError e)))
   \<and> (valid_hex s \<and> length s div 2 \<noteq> PrivateKeySize \<longrightarrow>
        LoadKeysFromHex s = Inl (InvalidKeySize (length s div 2)))
   \<and> (valid_hex s \<and> length s div 2 = PrivateKeySize \<longrightarrow>
        snd (DecodeString s) = None \<and> length (fst (DecodeString s)) = PrivateKeySize
        \<and> LoadKeysFromHex s = Inr (fst (DecodeString s)))"
proof (cases "valid_hex s")
  case True
  then have ok: "snd (hex_Decode s) = None" by (simp add: hex_Decode_ok_iff)
  then have n: "length (fst (hex_Decode s)) = length s div 2" by (rule hex_Decode_length)
  obtain bs where d: "hex_Decode s = (bs, None)" using ok by (cases "hex_Decode s") simp
  from n d have l: "length bs = length s div 2" by simp
  show ?thesis
    using True d l by (simp add: LoadKeysFromHex_def DecodeString_def copy_def)
next
  case False
  then have "snd (hex_Decode s) \<noteq> None" by (simp add: hex_Decode_ok_iff)
  then obtain bs e where d: "hex_Decode s = (bs, Some e)" by (cases "hex_Decode s") auto
  show ?thesis
    using False d by (simp add: LoadKeysFromHex_def DecodeString_def)
qed

lemma hex_Decode_a1: "hex_Decode (concat (replicate n ''a1'')) = (replicate n 0xa1, None)"
proof (induction n)
  case 0
  show ?case by simp
next
  case (Suc n)
  have a: "reverseHexTable CHR ''a'' = 10" by (simp add: reverseHexTable_def)
  have b: "reverseHexTable CHR ''1'' = 1" by (simp add: reverseHexTable_def)
  show ?case using Suc by (simp add: a b)
qed

lemma valid_hex_a1: "valid_hex (concat (replicate n ''a1''))"
  using hex_Decode_ok_iff [of "concat (replicate n ''a1'')"] by (simp add: hex_Decode_a1)

lemma valid_hex_00ff: "valid_hex ''00ff''"
  by (simp add: valid_hex_def hex_digit_def)

lemma invalid_hex_zz: "\<not> valid_hex ''zz''"
  by (simp add: valid_hex_def hex_digit_def)

theorem LoadKeysFromHex_cases_witness:
  "LoadKeysFromHex (concat (replicate 64 ''a1'')) = Inr (replicate 64 0xa1)
   \<and> LoadKeysFromHex ''00ff'' = Inl (InvalidKeySize 2)
   \<and> (\<exists>e. LoadKeysFromHex ''zz'' = Inl (DecodeError e))"
proof -
  have v: "valid_hex (concat (replicate 64 ''a1''))
      \<and> length (concat (replicate 64 ''a1'')) div 2 = PrivateKeySize"
    by (simp add: valid_hex_a1 length_concat sum_list_replicate PrivateKeySize_def)
  have "LoadKeysFromHex (concat (replicate 64 ''a1''))
      = Inr (fst (DecodeString (concat (replicate 64 ''a1''))))"
    using LoadKeysFromHex_cases [of "concat (replicate 64 ''a1'')", THEN conjunct2, THEN conjunct2] v
    by blast
  then have a: "LoadKeysFromHex (concat (replicate 64 ''a1'')) = Inr (replicate 64 0xa1)"
    by (simp add: DecodeString_def hex_Decode_a1)
  have b: "LoadKeysFromHex ''00ff'' = Inl (InvalidKeySize 2)"
    using LoadKeysFromHex_cases [of "''00ff''", THEN conjunct2, THEN conjunct1] valid_hex_00ff
    by (simp add: PrivateKeySize_def)
  have c: "\<exists>e. LoadKeysFromHex ''zz'' = Inl (DecodeError e)"
    using LoadKeysFromHex_cases [of "''zz''", THEN conjunct1] invalid_hex_zz
    by blast
  show ?thesis using a b c by blast
qed

section \<open>The round trip of peer identities\<close>

lemma PutUint16_fresh: "PutUint16 (replicate 2 0) v = Inr [ucast (drop_bit 8 v), ucast v]"
  by (simp add: PutUint16_def eval_nat_numeral)

lemma be16_inverse:
  "ucast (ucast v :: byte) OR push_bit 8 (ucast (ucast (drop_bit 8 v) :: byte)) = (v :: 16 word)"
  by (rule bit_word_eqI) (auto simp: bit_simps)

lemma Uint16_pair: "Uint16 [a, b] = Inr (ucast b OR push_bit 8 (ucast a))"
  by (simp add: Uint16_def)

lemma length_To16:
  "length (ip_bytes h) = 4 \<or> length (ip_bytes h) = 16 \<Longrightarrow> length (ip_bytes (To16 h)) = 16"
  by (auto simp: To16_def IPv4_def v4InV6Prefix_def IPv4len_def IPv6len_def ip_bytes_def)

lemma To16_sixteen: "length (ip_bytes h) = 16 \<Longrightarrow> To16 h = h"
  by (simp add: To16_def IPv4len_def IPv6len_def)

lemma To16_not_nil:
  "length (ip_bytes h) = 4 \<or> length (ip_bytes h) = 16 \<Longrightarrow> To16 h = Some (ip_bytes (To16 h))"
  by (cases h) (auto simp: To16_def IPv4_def IPv4len_def IPv6len_def ip_bytes_def)

lemma four_bytes:
  assumes "length h = 4"
  shows "h = [h ! 0, h ! 1, h ! 2, h ! 3]"
proof -
  from assms have "length h = Suc (Suc (Suc (Suc 0)))" by simp
  then obtain a b c d where "h = [a, b, c, d]" by (auto simp: length_Suc_conv)
  then show ?thesis by simp
qed

lemma IP_Equal_To16:
  "length (ip_bytes h) = 4 \<or> length (ip_bytes h) = 16 \<Longrightarrow> IP_Equal (To16 h) h"
proof (erule disjE)
  assume l: "length (ip_bytes h) = 4"
  then have t: "ip_bytes (To16 h)
      = v4InV6Prefix @ [ip_bytes h ! 0, ip_bytes h ! 1, ip_bytes h ! 2, ip_bytes h ! 3]"
    by (simp add: To16_def IPv4_def IPv4len_def ip_bytes_def)
  have p: "length v4InV6Prefix = 12" by (simp add: v4InV6Prefix_def)
  show ?thesis
    unfolding IP_Equal_def t using l four_bytes [OF l] by (simp add: p IPv4len_def IPv6len_def)
next
  assume "length (ip_bytes h) = 16"
  then show ?thesis by (simp add: To16_sixteen IP_Equal_def)
qed

text \<open>
  Claim C3, as amended. For an identity whose key serialises to \<open>Size\<close> bytes that the
  key parser reads back, and whose host has 4 or 16 bytes, \<open>UnmarshalID\<close> of the
  marshalled bytes succeeds and returns the key and the port unchanged and the host in
  its 16-byte form \<open>To16\<close>, the same address under \<open>net.IP.Equal\<close>; the result is
  the identity itself when the host already has 16 bytes.
\<close>

theorem UnmarshalID_Marshal_roundtrip:
  assumes k: "length (Bytes pk (ID i)) = Size pk pubkey"
      and u: "UnmarshalPublicKeyFromByte pk pubkey (Bytes pk (ID i)) = Inr (ID i)"
      and h: "length (ip_bytes (Host i)) = 4 \<or> length (ip_bytes (Host i)) = 16"
  shows "\<exists>buf. ID_Marshal pk i = Inr buf \<and> length buf = Size pk pubkey + 18
           \<and> UnmarshalID pk buf pubkey = Inr (i\<lparr>Host := To16 (Host i)\<rparr>)
           \<and> IP_Equal (To16 (Host i)) (Host i)
           \<and> (length (ip_bytes (Host i)) = 16 \<longrightarrow> UnmarshalID pk buf pubkey = Inr i)"
proof -
  define buf where
    "buf = (Bytes pk (ID i) @ ip_bytes (To16 (Host i)))
             @ [ucast (drop_bit 8 (Port i)), ucast (Port i)]"
  have m: "ID_Marshal pk i = Inr buf"
    by (simp add: ID_Marshal_def PutUint16_fresh buf_def)
  have l16: "length (ip_bytes (To16 (Host i))) = 16" using h by (rule length_To16)
  have len: "length buf = Size pk pubkey + 18" by (simp add: buf_def k l16)
  have tk: "take (Size pk pubkey) buf = Bytes pk (ID i)" by (simp add: buf_def k)
  have hs: "drop (Size pk pubkey) (take (Size pk pubkey + IPv6len) buf)
      = ip_bytes (To16 (Host i))"
    by (simp add: buf_def k l16 IPv6len_def)
  have ps: "drop (Size pk pubkey + IPv6len) buf = [ucast (drop_bit 8 (Port i)), ucast (Port i)]"
    by (simp add: buf_def k l16 IPv6len_def)
  have d: "UnmarshalID pk buf pubkey = Inr (i\<lparr>Host := To16 (Host i)\<rparr>)"
    unfolding UnmarshalID_def Let_def tk hs ps u
    by (simp add: len IPv6len_def Uint16_pair be16_inverse To16_not_nil [OF h, symmetric])
  have e: "length (ip_bytes (Host i)) = 16 \<longrightarrow> UnmarshalID pk buf pubkey = Inr i"
    by (simp add: d To16_sixteen)
  show ?thesis using m len d e IP_Equal_To16 [OF h] by blast
qed


theorem UnmarshalID_Marshal_roundtrip_witness:
  "\<exists>buf. ID_Marshal Ed25519PublicKeyMethods
              \<lparr>ID = replicate 32 7, Host = Some (replicate 15 0 @ [9]), Port = 80\<rparr> = Inr buf
         \<and> UnmarshalID Ed25519PublicKeyMethods buf (replicate 32 0)
             = Inr \<lparr>ID = replicate 32 7, Host = Some (replicate 15 0 @ [9]), Port = 80\<rparr>"
proof -
  let ?i = "\<lparr>ID = replicate 32 (7 :: byte), Host = Some (replicate 15 0 @ [9]), Port = 80\<rparr>"
  have k: "length (Bytes Ed25519PublicKeyMethods (ID ?i))
             = Size Ed25519PublicKeyMethods (replicate 32 0)"
    by (simp add: Ed25519PublicKeyMethods_def PublicKeySize_def)
  have u: "UnmarshalPublicKeyFromByte Ed25519PublicKeyMethods (replicate 32 0)
             (Bytes Ed25519PublicKeyMethods (ID ?i)) = Inr (ID ?i)"
    by (simp add: Ed25519PublicKeyMethods_def PublicKeySize_def)
  have h: "length (ip_bytes (Host ?i)) = 4 \<or> length (ip_bytes (Host ?i)) = 16"
    by (simp add: ip_bytes_def)
  have s: "length (ip_bytes (Host ?i)) = 16" by (simp add: ip_bytes_def)
  show ?thesis
    using UnmarshalID_Marshal_roundtrip [OF k u h] s by blast
qed

text \<open>
  Claim C3, as stated, fails for a four-byte IPv4 host: the identity that comes back has
  the sixteen-byte IPv4-mapped host and so differs from the original.
\<close>

theorem roundtrip_changes_four_byte_host:
  "ID_Marshal Ed25519PublicKeyMethods \<lparr>ID = replicate 32 7, Host = Some [1, 2, 3, 4], Port = 80\<rparr>
     = Inr (replicate 32 7 @ [0, 0, 0, 0, 0, 0, 0, 0, 0, 0, 0xff, 0xff, 1, 2, 3, 4] @ [0, 80])
   \<and> UnmarshalID Ed25519PublicKeyMethods
        (replicate 32 7 @ [0, 0, 0, 0, 0, 0, 0, 0, 0, 0, 0xff, 0xff, 1, 2, 3, 4] @ [0, 80])
        (replicate 32 0)
     = Inr \<lparr>ID = replicate 32 7, Host = Some [0, 0, 0, 0, 0, 0, 0, 0, 0, 0, 0xff, 0xff, 1, 2, 3, 4],
            Port = 80\<rparr>
   \<and> \<lparr>ID = replicate 32 (7 :: byte), Host = Some [0, 0, 0, 0, 0, 0, 0, 0, 0, 0, 0xff, 0xff, 1, 2, 3, 4],
        Port = (80 :: 16 word)\<rparr>
     \<noteq> \<lparr>ID = replicate 32 7, Host = Some [1, 2, 3, 4], Port = 80\<rparr>"
proof -
  have m: "ID_Marshal Ed25519PublicKeyMethods \<lparr>ID = replicate 32 7, Host = Some [1, 2, 3, 4], Port = 80\<rparr>
     = Inr (replicate 32 7 @ [0, 0, 0, 0, 0, 0, 0, 0, 0, 0, 0xff, 0xff, 1, 2, 3, 4] @ [0, 80])"
    by (simp add: ID_Marshal_def PutUint16_fresh To16_def IPv4_def v4InV6Prefix_def IPv4len_def
        Ed25519PublicKeyMethods_def ip_bytes_def)
  have u: "UnmarshalID Ed25519PublicKeyMethods
        (replicate 32 7 @ [0, 0, 0, 0, 0, 0, 0, 0, 0, 0, 0xff, 0xff, 1, 2, 3, 4] @ [0, 80])
        (replicate 32 0)
     = Inr \<lparr>ID = replicate 32 7, Host = Some [0, 0, 0, 0, 0, 0, 0, 0, 0, 0, 0xff, 0xff, 1, 2, 3, 4],
            Port = 80\<rparr>"
    by (simp add: UnmarshalID_def Ed25519PublicKeyMethods_def PublicKeySize_def IPv6len_def
        Uint16_def)
  show ?thesis using m u by simp
qed

section \<open>Properties of the connection registry\<close>



























end
